theory Spec2Isabelle
  imports Complex_Main "HOL-Library.AList" "HOL-Library.Word"
begin

section \<open>JavaScript values and the operations \<open>lib/inference.ts\<close> applies to them\<close>

text \<open>
  The completion client returns a value of TypeScript type \<open>any\<close>. It is modelled as
  a tree of plain data: \<open>undefined\<close>, \<open>null\<close>, booleans, numbers (as integers),
  strings, arrays and objects. An object is its list of own properties in insertion order;
  an array is its list of elements together with any further own properties (an array is
  an object, and \<open>extract\<close> assigns a property to whatever the client returned).
  Values are immutable trees: every response is a fresh value.
\<close>

datatype jsvalue =
    JUndefined
  | JNull
  | JBool bool
  | JNum int
  | JStr string
  | JArr "jsvalue list" "(string \<times> jsvalue) list"
  | JObj "(string \<times> jsvalue) list"

text \<open>What a \<open>throw\<close> or a rejected promise carries.\<close>

datatype error =
    TypeError
  | SyntaxError
  | Error string

definition ebind :: "error + 'a \<Rightarrow> ('a \<Rightarrow> error + 'b) \<Rightarrow> error + 'b" where
  "ebind m f = (case m of Inl e \<Rightarrow> Inl e | Inr x \<Rightarrow> f x)"

text \<open>Reading an own property from a property list; an absent key reads as \<open>undefined\<close>.\<close>

definition lookup_prop :: "(string \<times> jsvalue) list \<Rightarrow> string \<Rightarrow> jsvalue" where
  "lookup_prop kvs k = (case map_of kvs k of None \<Rightarrow> JUndefined | Some v \<Rightarrow> v)"

text \<open>
  \<open>v.k\<close> for the property names the program reads (\<open>choices\<close>, \<open>message\<close>,
  \<open>tool_calls\<close>, \<open>function\<close>, \<open>name\<close>, \<open>arguments\<close>, \<open>content\<close>,
  \<open>completed\<close>, \<open>length\<close>): none of them is inherited from a built-in prototype of
  plain data, apart from \<open>length\<close> on strings and arrays. Reading a property of
  \<open>undefined\<close> or \<open>null\<close> throws a TypeError.
\<close>

fun get_prop :: "jsvalue \<Rightarrow> string \<Rightarrow> error + jsvalue" where
  "get_prop JUndefined k = Inl TypeError"
| "get_prop JNull k = Inl TypeError"
| "get_prop (JBool b) k = Inr JUndefined"
| "get_prop (JNum n) k = Inr JUndefined"
| "get_prop (JStr s) k = Inr (if k = ''length'' then JNum (int (length s)) else JUndefined)"
| "get_prop (JArr xs ps) k =
     Inr (if k = ''length'' then JNum (int (length xs)) else lookup_prop ps k)"
| "get_prop (JObj kvs) k = Inr (lookup_prop kvs k)"

text \<open>\<open>v[0]\<close>.\<close>

fun get_index0 :: "jsvalue \<Rightarrow> error + jsvalue" where
  "get_index0 JUndefined = Inl TypeError"
| "get_index0 JNull = Inl TypeError"
| "get_index0 (JBool b) = Inr JUndefined"
| "get_index0 (JNum n) = Inr JUndefined"
| "get_index0 (JStr s) = Inr (case s of [] \<Rightarrow> JUndefined | c # _ \<Rightarrow> JStr [c])"
| "get_index0 (JArr xs ps) = Inr (case xs of [] \<Rightarrow> JUndefined | x # _ \<Rightarrow> x)"
| "get_index0 (JObj kvs) = Inr (lookup_prop kvs ''0'')"

text \<open>Truthiness, as tested by \<open>!v\<close>, \<open>v && ...\<close> and \<open>v ? ... : ...\<close>.\<close>

fun truthy :: "jsvalue \<Rightarrow> bool" where
  "truthy JUndefined = False"
| "truthy JNull = False"
| "truthy (JBool b) = b"
| "truthy (JNum n) = (n \<noteq> 0)"
| "truthy (JStr s) = (s \<noteq> [])"
| "truthy (JArr xs ps) = True"
| "truthy (JObj kvs) = True"

fun typeof :: "jsvalue \<Rightarrow> string" where
  "typeof JUndefined = ''undefined''"
| "typeof JNull = ''object''"
| "typeof (JBool b) = ''boolean''"
| "typeof (JNum n) = ''number''"
| "typeof (JStr s) = ''string''"
| "typeof (JArr xs ps) = ''object''"
| "typeof (JObj kvs) = ''object''"

text \<open>
  \<open>v.metadata = x\<close> in module (strict-mode) code: a TypeError on \<open>undefined\<close>,
  \<open>null\<close> and on a primitive; on an object or array the property is overwritten in
  place when present and appended otherwise.
\<close>

fun set_metadata :: "jsvalue \<Rightarrow> jsvalue \<Rightarrow> error + jsvalue" where
  "set_metadata (JObj kvs) x = Inr (JObj (AList.update ''metadata'' x kvs))"
| "set_metadata (JArr xs ps) x = Inr (JArr xs (AList.update ''metadata'' x ps))"
| "set_metadata v x = Inl TypeError"

section \<open>Collaborators\<close>

subsection \<open>Requests to the completion client\<close>

text \<open>The zod schema descriptors built by the program or handed in by the caller.\<close>

datatype zschema =
    ZString
  | ZBoolean
  | ZNumber
  | ZArray zschema
  | ZObject "(string \<times> zschema) list"
  | ZDescribe zschema string

type_synonym Buffer = "8 word list"

record chat_message =
  role :: string
  content :: string

record image_attachment =
  buffer :: Buffer
  description :: string

record response_model =
  name :: string
  schema :: zschema

record request =
  model :: string
  messages :: "chat_message list"
  temperature :: real
  top_p :: int
  frequency_penalty :: int
  presence_penalty :: int
  tool_choice :: "string option"
  tools :: "jsvalue option"
  image :: "image_attachment option"
  response_model :: "response_model option"

text \<open>
  One completion client: a state machine that answers a request with a response or a
  failure (a rejected promise) and moves to its next state. The provider's
  \<open>getClient\<close> is a function from model names to clients; it is total, its argument
  having the type \<open>AvailableModel\<close>.
\<close>

type_synonym 'c llm_client = "'c \<Rightarrow> request \<Rightarrow> (error + jsvalue) \<times> 'c"

type_synonym 'c llm_provider = "string \<Rightarrow> 'c llm_client"

record log_message =
  category :: "string option"
  message :: string

text \<open>
  The observable world of one operation: the client's state, the requests issued so far
  (in order) and the entries handed to the caller's \<open>logger\<close>, which records its
  argument and returns. The operations are \<open>async\<close> functions that await one
  completion at a time, so each is a function from the world before to its outcome and the
  world after.
\<close>

record 'c world =
  client_state :: 'c
  calls :: "request list"
  logs :: "log_message list"

definition createChatCompletion ::
  "'c llm_client \<Rightarrow> request \<Rightarrow> 'c world \<Rightarrow> (error + jsvalue) \<times> 'c world" where
  "createChatCompletion llmClient req w =
     (case llmClient (client_state w) req of
        (r, c') \<Rightarrow> (r, w\<lparr>client_state := c', calls := calls w @ [req]\<rparr>))"

definition logger :: "log_message \<Rightarrow> 'c world \<Rightarrow> 'c world" where
  "logger entry w = w\<lparr>logs := logs w @ [entry]\<rparr>"

subsection \<open>The prompt module and the JavaScript runtime\<close>

text \<open>
  \<open>./prompt\<close> and \<open>./llm/LLMClient\<close> export the prompt builders (pure functions),
  the tool set and the screenshot caption; \<open>JSON.parse\<close> (which throws on a payload
  that is not JSON), \<open>JSON.stringify\<close> (which gives \<open>undefined\<close>, here \<open>None\<close>, on
  \<open>undefined\<close>) and the coercion behind \<open>v > 0\<close> on a string, array or object
  belong to the runtime. All are parameters of the model, and every theorem holds for all
  of their values.
\<close>

record environment =
  actTools :: jsvalue
  AnnotatedScreenshotText :: string
  buildActSystemPrompt :: chat_message
  buildActUserPrompt :: "string \<Rightarrow> string option \<Rightarrow> string \<Rightarrow> chat_message"
  buildAskSystemPrompt :: chat_message
  buildAskUserPrompt :: "string \<Rightarrow> chat_message"
  buildExtractSystemPrompt :: chat_message
  buildExtractUserPrompt :: "string \<Rightarrow> string \<Rightarrow> chat_message"
  buildRefineSystemPrompt :: chat_message
  buildRefineUserPrompt :: "string \<Rightarrow> jsvalue \<Rightarrow> jsvalue \<Rightarrow> chat_message"
  buildMetadataSystemPrompt :: chat_message
  buildMetadataPrompt :: "string \<Rightarrow> jsvalue \<Rightarrow> int \<Rightarrow> int \<Rightarrow> chat_message"
  buildObserveSystemPrompt :: chat_message
  buildObserveUserMessage :: "string \<Rightarrow> string \<Rightarrow> chat_message"
  buildVerifyActCompletionSystemPrompt :: chat_message
  buildVerifyActCompletionUserPrompt :: "string \<Rightarrow> string \<Rightarrow> string option \<Rightarrow> chat_message"
  JSON_parse :: "jsvalue \<Rightarrow> error + jsvalue"
  JSON_stringify :: "jsvalue \<Rightarrow> string option"
  coerced_gt_zero :: "jsvalue \<Rightarrow> error + bool"

text \<open>\<open>v > 0\<close>: decided here on \<open>undefined\<close>, \<open>null\<close>, booleans and numbers.\<close>

definition js_gt_zero :: "environment \<Rightarrow> jsvalue \<Rightarrow> error + bool" where
  "js_gt_zero env v =
     (case v of
        JUndefined \<Rightarrow> Inr False
      | JNull \<Rightarrow> Inr False
      | JBool b \<Rightarrow> Inr b
      | JNum n \<Rightarrow> Inr (0 < n)
      | _ \<Rightarrow> coerced_gt_zero env v)"

section \<open>Action Resolver\<close>

definition annotated_image :: "environment \<Rightarrow> Buffer option \<Rightarrow> image_attachment option" where
  "annotated_image env screenshot =
     (case screenshot of
        Some b \<Rightarrow> Some \<lparr>buffer = b, description = AnnotatedScreenshotText env\<rparr>
      | None \<Rightarrow> None)"

definition act_request ::
  "environment \<Rightarrow> string \<Rightarrow> string option \<Rightarrow> string \<Rightarrow> string \<Rightarrow> Buffer option \<Rightarrow> request" where
  "act_request env action steps domElements modelName screenshot =
     \<lparr>model = modelName,
      messages = [buildActSystemPrompt env, buildActUserPrompt env action steps domElements],
      temperature = 0.1,
      top_p = 1,
      frequency_penalty = 0,
      presence_penalty = 0,
      tool_choice = Some ''auto'',
      tools = Some (actTools env),
      image = annotated_image env screenshot,
      response_model = None\<rparr>"

text \<open>\<open>response.choices[0].message\<close>\<close>

definition first_message :: "jsvalue \<Rightarrow> error + jsvalue" where
  "first_message response =
     ebind (ebind (get_prop response ''choices'') get_index0) (\<lambda>c. get_prop c ''message'')"

text \<open>\<open>response.choices[0].message.tool_calls\<close>\<close>

definition tool_calls_of :: "jsvalue \<Rightarrow> error + jsvalue" where
  "tool_calls_of response = ebind (first_message response) (\<lambda>m. get_prop m ''tool_calls'')"

text \<open>\<open>toolCalls && toolCalls.length > 0\<close>\<close>

definition has_tool_calls :: "environment \<Rightarrow> jsvalue \<Rightarrow> error + bool" where
  "has_tool_calls env toolCalls =
     (if truthy toolCalls then ebind (get_prop toolCalls ''length'') (js_gt_zero env)
      else Inr False)"

text \<open>\<open>toolCalls[0].function\<close>\<close>

definition first_function :: "jsvalue \<Rightarrow> error + jsvalue" where
  "first_function toolCalls = ebind (get_index0 toolCalls) (\<lambda>t. get_prop t ''function'')"

function act ::
  "environment \<Rightarrow> 'c llm_provider \<Rightarrow> string \<Rightarrow> string option \<Rightarrow> string \<Rightarrow> string \<Rightarrow>
   Buffer option \<Rightarrow> int \<Rightarrow> 'c world \<Rightarrow> (error + jsvalue) \<times> 'c world" where
  "act env llmProvider action steps domElements modelName screenshot retries w =
     (case createChatCompletion (llmProvider modelName)
             (act_request env action steps domElements modelName screenshot) w of
        (Inl e, w1) \<Rightarrow> (Inl e, w1)
      | (Inr response, w1) \<Rightarrow>
          (case tool_calls_of response of
             Inl e \<Rightarrow> (Inl e, w1)
           | Inr toolCalls \<Rightarrow>
               (case has_tool_calls env toolCalls of
                  Inl e \<Rightarrow> (Inl e, w1)
                | Inr True \<Rightarrow>
                    (case ebind (first_function toolCalls) (\<lambda>f. get_prop f ''name'') of
                       Inl e \<Rightarrow> (Inl e, w1)
                     | Inr nm \<Rightarrow>
                         if nm = JStr ''skipSection'' then (Inr JNull, w1)
                         else (ebind (ebind (first_function toolCalls)
                                        (\<lambda>f. get_prop f ''arguments''))
                                 (JSON_parse env), w1))
                | Inr False \<Rightarrow>
                    if retries \<ge> 2
                    then (Inr JNull,
                          logger \<lparr>category = Some ''Act'',
                                  message = ''No tool calls found in response''\<rparr> w1)
                    else act env llmProvider action steps domElements modelName None
                           (retries + 1) w1)))"
  by pat_completeness auto
termination
  by (relation "measure (\<lambda>(env, llmProvider, action, steps, domElements, modelName,
                          screenshot, retries, w). nat (2 - retries))") auto

declare act.simps [simp del]

section \<open>Completion Verifier\<close>

definition verify_image :: "Buffer option \<Rightarrow> image_attachment option" where
  "verify_image screenshot =
     (case screenshot of
        Some b \<Rightarrow>
          Some \<lparr>buffer = b,
                description = ''This is a screenshot of the whole visible page.''\<rparr>
      | None \<Rightarrow> None)"

definition verify_request ::
  "environment \<Rightarrow> string \<Rightarrow> string \<Rightarrow> string \<Rightarrow> Buffer option \<Rightarrow> string option \<Rightarrow> request" where
  "verify_request env goal steps modelName screenshot domElements =
     \<lparr>model = modelName,
      messages = [buildVerifyActCompletionSystemPrompt env,
                  buildVerifyActCompletionUserPrompt env goal steps domElements],
      temperature = 0.1,
      top_p = 1,
      frequency_penalty = 0,
      presence_penalty = 0,
      tool_choice = None,
      tools = None,
      image = verify_image screenshot,
      response_model =
        Some \<lparr>name = ''Verification'',
              schema = ZObject [(''completed'',
                         ZDescribe ZBoolean ''true if the goal is accomplished'')]\<rparr>\<rparr>"

text \<open>\<open>"Unexpected response format: " + JSON.stringify(response)\<close>\<close>

definition unexpected_format_message :: "environment \<Rightarrow> jsvalue \<Rightarrow> string" where
  "unexpected_format_message env response =
     ''Unexpected response format: '' @
       (case JSON_stringify env response of None \<Rightarrow> ''undefined'' | Some s \<Rightarrow> s)"

definition verifyActCompletion ::
  "environment \<Rightarrow> 'c llm_provider \<Rightarrow> string \<Rightarrow> string \<Rightarrow> string \<Rightarrow> Buffer option \<Rightarrow>
   string option \<Rightarrow> 'c world \<Rightarrow> (error + jsvalue) \<times> 'c world" where
  "verifyActCompletion env llmProvider goal steps modelName screenshot domElements w =
     (case createChatCompletion (llmProvider modelName)
             (verify_request env goal steps modelName screenshot domElements) w of
        (Inl e, w1) \<Rightarrow> (Inl e, w1)
      | (Inr response, w1) \<Rightarrow>
          if \<not> truthy response \<or> typeof response \<noteq> ''object''
          then (Inr (JBool False),
                logger \<lparr>category = Some ''VerifyAct'',
                        message = unexpected_format_message env response\<rparr> w1)
          else
            (case get_prop response ''completed'' of
               Inl e \<Rightarrow> (Inl e, w1)
             | Inr completed \<Rightarrow>
                 if completed = JUndefined
                 then (Inr (JBool False),
                       logger \<lparr>category = Some ''VerifyAct'',
                               message = ''Missing 'completed' field in response''\<rparr> w1)
                 else (Inr completed, w1)))"

section \<open>Extraction Pipeline\<close>

definition extraction_request ::
  "environment \<Rightarrow> string \<Rightarrow> string \<Rightarrow> zschema \<Rightarrow> string \<Rightarrow> request" where
  "extraction_request env instruction domElements sch modelName =
     \<lparr>model = modelName,
      messages = [buildExtractSystemPrompt env,
                  buildExtractUserPrompt env instruction domElements],
      temperature = 0.1,
      top_p = 1,
      frequency_penalty = 0,
      presence_penalty = 0,
      tool_choice = None,
      tools = None,
      image = None,
      response_model = Some \<lparr>name = ''Extraction'', schema = sch\<rparr>\<rparr>"

definition refine_request ::
  "environment \<Rightarrow> string \<Rightarrow> jsvalue \<Rightarrow> jsvalue \<Rightarrow> zschema \<Rightarrow> string \<Rightarrow> request" where
  "refine_request env instruction previouslyExtractedContent extractionResponse sch modelName =
     \<lparr>model = modelName,
      messages = [buildRefineSystemPrompt env,
                  buildRefineUserPrompt env instruction previouslyExtractedContent
                    extractionResponse],
      temperature = 0.1,
      top_p = 1,
      frequency_penalty = 0,
      presence_penalty = 0,
      tool_choice = None,
      tools = None,
      image = None,
      response_model = Some \<lparr>name = ''RefinedExtraction'', schema = sch\<rparr>\<rparr>"

definition metadataSchema :: zschema where
  "metadataSchema =
     ZObject
       [(''progress'',
         ZDescribe ZString
           ''progress of what has been extracted so far, as concise as possible''),
        (''completed'',
         ZDescribe ZBoolean
           ''true if the goal is now accomplished. Use this conservatively, only when you are sure that the goal has been completed.'')]"

definition metadata_request ::
  "environment \<Rightarrow> string \<Rightarrow> jsvalue \<Rightarrow> int \<Rightarrow> int \<Rightarrow> string \<Rightarrow> request" where
  "metadata_request env instruction refinedResponse chunksSeen chunksTotal modelName =
     \<lparr>model = modelName,
      messages = [buildMetadataSystemPrompt env,
                  buildMetadataPrompt env instruction refinedResponse chunksSeen chunksTotal],
      temperature = 0.1,
      top_p = 1,
      frequency_penalty = 0,
      presence_penalty = 0,
      tool_choice = None,
      tools = None,
      image = None,
      response_model = Some \<lparr>name = ''Metadata'', schema = metadataSchema\<rparr>\<rparr>"

text \<open>
  The source's \<open>extract\<close> (the name is a command of the proof language, hence the
  suffix). Its parameter \<open>progress\<close> is accepted and never read.
\<close>

definition extract_op ::
  "environment \<Rightarrow> 'c llm_provider \<Rightarrow> string \<Rightarrow> string \<Rightarrow> jsvalue \<Rightarrow> string \<Rightarrow> zschema \<Rightarrow>
   string \<Rightarrow> int \<Rightarrow> int \<Rightarrow> 'c world \<Rightarrow> (error + jsvalue) \<times> 'c world" where
  "extract_op env llmProvider instruction progress previouslyExtractedContent domElements sch
     modelName chunksSeen chunksTotal w =
     (case createChatCompletion (llmProvider modelName)
             (extraction_request env instruction domElements sch modelName) w of
        (Inl e, w1) \<Rightarrow> (Inl e, w1)
      | (Inr extractionResponse, w1) \<Rightarrow>
          (case createChatCompletion (llmProvider modelName)
                  (refine_request env instruction previouslyExtractedContent
                     extractionResponse sch modelName) w1 of
             (Inl e, w2) \<Rightarrow> (Inl e, w2)
           | (Inr refinedResponse, w2) \<Rightarrow>
               (case createChatCompletion (llmProvider modelName)
                       (metadata_request env instruction refinedResponse chunksSeen
                          chunksTotal modelName) w2 of
                  (Inl e, w3) \<Rightarrow> (Inl e, w3)
                | (Inr metadataResponse, w3) \<Rightarrow>
                    (set_metadata refinedResponse metadataResponse, w3))))"

section \<open>Observation Resolver\<close>

definition observeSchema :: zschema where
  "observeSchema =
     ZObject
       [(''elements'',
         ZDescribe
           (ZArray
              (ZObject
                 [(''elementId'', ZDescribe ZNumber ''the number of the element''),
                  (''description'',
                   ZDescribe ZString
                     ''a description of the element and what it is relevant for'')]))
           ''an array of elements that match the instruction'')]"

definition observe_request ::
  "environment \<Rightarrow> string \<Rightarrow> string \<Rightarrow> string \<Rightarrow> Buffer option \<Rightarrow> request" where
  "observe_request env instruction domElements modelName img =
     \<lparr>model = modelName,
      messages = [buildObserveSystemPrompt env,
                  buildObserveUserMessage env instruction domElements],
      temperature = 0.1,
      top_p = 1,
      frequency_penalty = 0,
      presence_penalty = 0,
      tool_choice = None,
      tools = None,
      image = annotated_image env img,
      response_model = Some \<lparr>name = ''Observation'', schema = observeSchema\<rparr>\<rparr>"

definition observe ::
  "environment \<Rightarrow> 'c llm_provider \<Rightarrow> string \<Rightarrow> string \<Rightarrow> string \<Rightarrow> Buffer option \<Rightarrow>
   'c world \<Rightarrow> (error + jsvalue) \<times> 'c world" where
  "observe env llmProvider instruction domElements modelName img w =
     (case createChatCompletion (llmProvider modelName)
             (observe_request env instruction domElements modelName img) w of
        (Inl e, w1) \<Rightarrow> (Inl e, w1)
      | (Inr observationResponse, w1) \<Rightarrow>
          if \<not> truthy observationResponse
          then (Inl (Error ''no response when finding a selector''), w1)
          else (Inr observationResponse, w1))"

section \<open>Free-form Asker\<close>

definition ask_request :: "environment \<Rightarrow> string \<Rightarrow> string \<Rightarrow> request" where
  "ask_request env question modelName =
     \<lparr>model = modelName,
      messages = [buildAskSystemPrompt env, buildAskUserPrompt env question],
      temperature = 0.1,
      top_p = 1,
      frequency_penalty = 0,
      presence_penalty = 0,
      tool_choice = None,
      tools = None,
      image = None,
      response_model = None\<rparr>"

definition ask ::
  "environment \<Rightarrow> 'c llm_provider \<Rightarrow> string \<Rightarrow> string \<Rightarrow> 'c world \<Rightarrow>
   (error + jsvalue) \<times> 'c world" where
  "ask env llmProvider question modelName w =
     (case createChatCompletion (llmProvider modelName) (ask_request env question modelName) w of
        (Inl e, w1) \<Rightarrow> (Inl e, w1)
      | (Inr response, w1) \<Rightarrow>
          (ebind (first_message response) (\<lambda>m. get_prop m ''content''), w1))"

section \<open>Vocabulary of the properties\<close>

text \<open>
  A response carries no tool invocation when its first choice has a message whose
  \<open>tool_calls\<close> is absent, \<open>null\<close> or an empty array.
\<close>

definition no_tool_invocations :: "jsvalue \<Rightarrow> bool" where
  "no_tool_invocations response =
     (case tool_calls_of response of
        Inr JUndefined \<Rightarrow> True
      | Inr JNull \<Rightarrow> True
      | Inr (JArr [] ps) \<Rightarrow> True
      | _ \<Rightarrow> False)"

text \<open>\<open>t.function.name\<close> of a tool invocation \<open>t\<close>.\<close>

definition invocation_name :: "jsvalue \<Rightarrow> error + jsvalue" where
  "invocation_name t = ebind (get_prop t ''function'') (\<lambda>f. get_prop f ''name'')"

text \<open>
  A response contains a skip invocation when some entry of its \<open>tool_calls\<close> array, at
  any position, is named \<open>skipSection\<close>.
\<close>

definition contains_skip_invocation :: "jsvalue \<Rightarrow> bool" where
  "contains_skip_invocation response =
     (case tool_calls_of response of
        Inr (JArr invocations ps) \<Rightarrow>
          Inr (JStr ''skipSection'') \<in> set (map invocation_name invocations)
      | _ \<Rightarrow> False)"

text \<open>
  An object in the sense of the language: a plain object or an array (\<open>null\<close> and the
  primitives are not).
\<close>

definition is_object :: "jsvalue \<Rightarrow> bool" where
  "is_object v = (case v of JObj kvs \<Rightarrow> True | JArr xs ps \<Rightarrow> True | _ \<Rightarrow> False)"

text \<open>
  What one attempt of \<open>act\<close> makes of a response: a final outcome, or \<open>None\<close> when
  the response has no tool call and the retry branch is taken.
\<close>

definition act_attempt :: "environment \<Rightarrow> jsvalue \<Rightarrow> (error + jsvalue) option" where
  "act_attempt env response =
     (case tool_calls_of response of
        Inl e \<Rightarrow> Some (Inl e)
      | Inr toolCalls \<Rightarrow>
          (case has_tool_calls env toolCalls of
             Inl e \<Rightarrow> Some (Inl e)
           | Inr True \<Rightarrow>
               (case ebind (first_function toolCalls) (\<lambda>f. get_prop f ''name'') of
                  Inl e \<Rightarrow> Some (Inl e)
                | Inr nm \<Rightarrow>
                    if nm = JStr ''skipSection'' then Some (Inr JNull)
                    else Some (ebind (ebind (first_function toolCalls)
                                        (\<lambda>f. get_prop f ''arguments''))
                                 (JSON_parse env)))
           | Inr False \<Rightarrow> None))"

subsection \<open>Concrete collaborators, for instances of the theorems\<close>

text \<open>
  Stand-ins for the runtime's parser and printer, exact on the few values the instances
  below give them.
\<close>

definition example_parse :: "jsvalue \<Rightarrow> error + jsvalue" where
  "example_parse v =
     (if v = JStr ''{}'' then Inr (JObj [])
      else if v = JStr ''[7]'' then Inr (JArr [JNum 7] [])
      else if v = JStr ''null'' \<or> v = JNull then Inr JNull
      else Inl SyntaxError)"

definition example_stringify :: "jsvalue \<Rightarrow> string option" where
  "example_stringify v =
     (case v of
        JUndefined \<Rightarrow> None
      | JNull \<Rightarrow> Some ''null''
      | JBool b \<Rightarrow> Some (if b then ''true'' else ''false'')
      | JNum n \<Rightarrow> Some ''0''
      | JStr s \<Rightarrow> Some ([CHR 0x22] @ s @ [CHR 0x22])
      | JArr xs ps \<Rightarrow> Some ''[]''
      | JObj kvs \<Rightarrow> Some ''{}'')"

definition example_env :: environment where
  "example_env =
     \<lparr>actTools = JArr [JStr ''doAction'', JStr ''skipSection''] [],
      AnnotatedScreenshotText = ''annotated screenshot'',
      buildActSystemPrompt = \<lparr>role = ''system'', content = ''act''\<rparr>,
      buildActUserPrompt =
        (\<lambda>action steps domElements. \<lparr>role = ''user'', content = action @ domElements\<rparr>),
      buildAskSystemPrompt = \<lparr>role = ''system'', content = ''ask''\<rparr>,
      buildAskUserPrompt = (\<lambda>question. \<lparr>role = ''user'', content = question\<rparr>),
      buildExtractSystemPrompt = \<lparr>role = ''system'', content = ''extract''\<rparr>,
      buildExtractUserPrompt =
        (\<lambda>instruction domElements. \<lparr>role = ''user'', content = instruction @ domElements\<rparr>),
      buildRefineSystemPrompt = \<lparr>role = ''system'', content = ''refine''\<rparr>,
      buildRefineUserPrompt =
        (\<lambda>instruction previous extracted.
           \<lparr>role = ''user'',
            content = instruction @ (case example_stringify extracted of
                                       None \<Rightarrow> [] | Some t \<Rightarrow> t)\<rparr>),
      buildMetadataSystemPrompt = \<lparr>role = ''system'', content = ''metadata''\<rparr>,
      buildMetadataPrompt =
        (\<lambda>instruction refined chunksSeen chunksTotal. \<lparr>role = ''user'', content = instruction\<rparr>),
      buildObserveSystemPrompt = \<lparr>role = ''system'', content = ''observe''\<rparr>,
      buildObserveUserMessage =
        (\<lambda>instruction domElements. \<lparr>role = ''user'', content = instruction @ domElements\<rparr>),
      buildVerifyActCompletionSystemPrompt = \<lparr>role = ''system'', content = ''verify''\<rparr>,
      buildVerifyActCompletionUserPrompt =
        (\<lambda>goal steps domElements. \<lparr>role = ''user'', content = goal @ steps\<rparr>),
      JSON_parse = example_parse,
      JSON_stringify = example_stringify,
      coerced_gt_zero = (\<lambda>v. Inr False)\<rparr>"

text \<open>A client that gives the same response to every request and counts the requests.\<close>

definition constant_client :: "jsvalue \<Rightarrow> nat llm_client" where
  "constant_client response c req = (Inr response, Suc c)"

text \<open>A client that plays a script of answers, one per request.\<close>

definition scripted_client :: "(error + jsvalue) list llm_client" where
  "scripted_client c req =
     (case c of
        [] \<Rightarrow> (Inl (Error ''script exhausted''), [])
      | r # rs \<Rightarrow> (r, rs))"

definition chat_response :: "jsvalue \<Rightarrow> jsvalue" where
  "chat_response msg = JObj [(''choices'', JArr [JObj [(''message'', msg)]] [])]"

definition text_response :: "string \<Rightarrow> jsvalue" where
  "text_response s = chat_response (JObj [(''content'', JStr s)])"

definition tool_call :: "string \<Rightarrow> string \<Rightarrow> jsvalue" where
  "tool_call nm args =
     JObj [(''function'', JObj [(''name'', JStr nm), (''arguments'', JStr args)])]"

definition tool_response :: "jsvalue list \<Rightarrow> jsvalue" where
  "tool_response invocations =
     chat_response (JObj [(''content'', JNull), (''tool_calls'', JArr invocations [])])"

definition initial_world :: "'c \<Rightarrow> 'c world" where
  "initial_world c = \<lparr>client_state = c, calls = [], logs = []\<rparr>"

text \<open>The provider that hands out the scripted client for every model.\<close>

definition scripted_provider :: "(error + jsvalue) list llm_provider" where
  "scripted_provider modelName = scripted_client"

section \<open>Properties of the Action Resolver\<close>

lemmas example_simps =
  scripted_client_def constant_client_def tool_response_def text_response_def chat_response_def
  tool_call_def tool_calls_of_def first_message_def ebind_def lookup_prop_def initial_world_def

lemma act_unfold:
  "act env llmProvider action steps domElements modelName screenshot retries w =
     (case createChatCompletion (llmProvider modelName)
             (act_request env action steps domElements modelName screenshot) w of
        (Inl e, w1) \<Rightarrow> (Inl e, w1)
      | (Inr response, w1) \<Rightarrow>
          (case act_attempt env response of
             Some res \<Rightarrow> (res, w1)
           | None \<Rightarrow>
               if retries \<ge> 2
               then (Inr JNull,
                     logger \<lparr>category = Some ''Act'',
                             message = ''No tool calls found in response''\<rparr> w1)
               else act env llmProvider action steps domElements modelName None
                      (retries + 1) w1))"
  by (subst act.simps) (simp add: act_attempt_def split: prod.splits sum.splits bool.splits)

lemma no_tool_invocations_attempt:
  "no_tool_invocations response \<Longrightarrow> act_attempt env response = None"
  by (auto simp: no_tool_invocations_def act_attempt_def has_tool_calls_def ebind_def
      js_gt_zero_def split: sum.splits jsvalue.splits list.splits)

lemma act_retry_step:
  assumes "llmProvider modelName (client_state w)
             (act_request env action steps domElements modelName screenshot) = (Inr response, c')"
    and "act_attempt env response = None"
  shows "act env llmProvider action steps domElements modelName screenshot retries w =
     (if retries \<ge> 2
      then (Inr JNull,
            logger \<lparr>category = Some ''Act'', message = ''No tool calls found in response''\<rparr>
              (w\<lparr>client_state := c',
                 calls := calls w @
                   [act_request env action steps domElements modelName screenshot]\<rparr>))
      else act env llmProvider action steps domElements modelName None (retries + 1)
             (w\<lparr>client_state := c',
                calls := calls w @
                  [act_request env action steps domElements modelName screenshot]\<rparr>))"
  by (subst act_unfold) (simp add: createChatCompletion_def assms)

text \<open>
  C1. When the completion client answers every request with a response that carries no
  tool invocation, a call of \<open>act\<close> with the default \<open>retries = 0\<close> issues exactly three
  completion requests (the initial one and two retries, one after the other), hands one
  diagnostic entry to the logger and returns \<open>null\<close>.
\<close>

theorem act_no_tool_calls_three_attempts:
  assumes "\<forall>c req. \<exists>response c'. llmProvider modelName c req = (Inr response, c') \<and>
             no_tool_invocations response"
  shows "\<exists>w'. act env llmProvider action steps domElements modelName screenshot 0 w =
           (Inr JNull, w') \<and>
         calls w' = calls w @
           [act_request env action steps domElements modelName screenshot,
            act_request env action steps domElements modelName None,
            act_request env action steps domElements modelName None] \<and>
         logs w' = logs w @
           [\<lparr>category = Some ''Act'', message = ''No tool calls found in response''\<rparr>]"
proof -
  let ?first = "act_request env action steps domElements modelName screenshot"
  let ?retry = "act_request env action steps domElements modelName None"
  obtain r1 c1 where 1: "llmProvider modelName (client_state w) ?first = (Inr r1, c1)"
    and n1: "no_tool_invocations r1"
    using assms by blast
  let ?w1 = "w\<lparr>client_state := c1, calls := calls w @ [?first]\<rparr>"
  obtain r2 c2 where 2: "llmProvider modelName (client_state ?w1) ?retry = (Inr r2, c2)"
    and n2: "no_tool_invocations r2"
    using assms by blast
  let ?w2 = "?w1\<lparr>client_state := c2, calls := calls ?w1 @ [?retry]\<rparr>"
  obtain r3 c3 where 3: "llmProvider modelName (client_state ?w2) ?retry = (Inr r3, c3)"
    and n3: "no_tool_invocations r3"
    using assms by blast
  let ?w3 = "?w2\<lparr>client_state := c3, calls := calls ?w2 @ [?retry]\<rparr>"
  have "act env llmProvider action steps domElements modelName screenshot 0 w =
        act env llmProvider action steps domElements modelName None 1 ?w1"
    using 1 no_tool_invocations_attempt [OF n1, of env]
      act_retry_step [where llmProvider = llmProvider and modelName = modelName and w = w
        and response = r1 and c' = c1 and retries = 0 and env = env and action = action
        and steps = steps and domElements = domElements and screenshot = screenshot]
    by simp
  also have "\<dots> = act env llmProvider action steps domElements modelName None 2 ?w2"
    using 2 no_tool_invocations_attempt [OF n2, of env]
      act_retry_step [where llmProvider = llmProvider and modelName = modelName and w = ?w1
        and response = r2 and c' = c2 and retries = 1 and env = env and action = action
        and steps = steps and domElements = domElements and screenshot = None]
    by simp
  also have "\<dots> = (Inr JNull,
       logger \<lparr>category = Some ''Act'', message = ''No tool calls found in response''\<rparr> ?w3)"
    using 3 no_tool_invocations_attempt [OF n3, of env]
      act_retry_step [where llmProvider = llmProvider and modelName = modelName and w = ?w2
        and response = r3 and c' = c3 and retries = 2 and env = env and action = action
        and steps = steps and domElements = domElements and screenshot = None]
    by simp
  finally show ?thesis
    by (simp add: logger_def)
qed

theorem act_no_tool_calls_three_attempts_witness:
  "(\<forall>c req. \<exists>response c'.
      constant_client (text_response ''I cannot help'') c req = (Inr response, c') \<and>
      no_tool_invocations response) \<and>
   (\<exists>w'. act example_env (\<lambda>m. constant_client (text_response ''I cannot help''))
            ''click the submit button'' None ''7: button'' ''gpt-4o'' (Some [137, 80]) 0
            (initial_world 0) = (Inr JNull, w') \<and>
          length (calls w') = 3 \<and> length (logs w') = 1)"
proof -
  have h: "\<forall>c req. \<exists>response c'.
      (\<lambda>m. constant_client (text_response ''I cannot help'')) ''gpt-4o'' c req
        = (Inr response, c') \<and> no_tool_invocations response"
    by (simp add: constant_client_def text_response_def chat_response_def
        no_tool_invocations_def tool_calls_of_def first_message_def ebind_def lookup_prop_def)
  from h act_no_tool_calls_three_attempts
      [where llmProvider = "\<lambda>m. constant_client (text_response ''I cannot help'')"
        and modelName = "''gpt-4o''" and env = example_env
        and action = "''click the submit button''" and steps = None
        and domElements = "''7: button''" and screenshot = "Some [137, 80]"
        and w = "initial_world 0"]
  obtain w' where "act example_env (\<lambda>m. constant_client (text_response ''I cannot help''))
            ''click the submit button'' None ''7: button'' ''gpt-4o'' (Some [137, 80]) 0
            (initial_world 0) = (Inr JNull, w')"
    and "length (calls w') = 3" and "length (logs w') = 1"
    by (auto simp: initial_world_def)
  with h show ?thesis by auto
qed

lemma act_final_step:
  assumes "llmProvider modelName (client_state w)
             (act_request env action steps domElements modelName screenshot) = (Inr response, c')"
    and "act_attempt env response = Some res"
  shows "act env llmProvider action steps domElements modelName screenshot retries w =
     (res, w\<lparr>client_state := c',
             calls := calls w @
               [act_request env action steps domElements modelName screenshot]\<rparr>)"
  by (subst act_unfold) (simp add: createChatCompletion_def assms)

lemma first_invocation_attempt:
  assumes "tool_calls_of response = Inr (JArr (t # ts) ps)"
    and "get_prop t ''function'' = Inr f"
    and "get_prop f ''name'' = Inr nm"
  shows "act_attempt env response =
     Some (if nm = JStr ''skipSection'' then Inr JNull
           else ebind (get_prop f ''arguments'') (JSON_parse env))"
  using assms
  by (simp add: act_attempt_def has_tool_calls_def first_function_def ebind_def js_gt_zero_def)

lemma createChatCompletion_calls:
  "createChatCompletion llmClient req w = (r, w1) \<Longrightarrow>
   calls w1 = calls w @ [req] \<and> logs w1 = logs w"
  by (auto simp: createChatCompletion_def split: prod.splits)

lemma act_calls_shape:
  "\<exists>n. calls (snd (act env llmProvider action steps domElements modelName screenshot retries w)) =
     calls w @ act_request env action steps domElements modelName screenshot #
       replicate n (act_request env action steps domElements modelName None)"
proof (induction "nat (2 - retries)" arbitrary: retries w screenshot)
  case 0
  then have r: "retries \<ge> 2" by simp
  obtain x w1 where c: "createChatCompletion (llmProvider modelName)
      (act_request env action steps domElements modelName screenshot) w = (x, w1)"
    by (cases "createChatCompletion (llmProvider modelName)
      (act_request env action steps domElements modelName screenshot) w")
  have "calls (snd (act env llmProvider action steps domElements modelName screenshot retries w))
      = calls w1"
    using r c by (subst act_unfold) (simp add: logger_def split: sum.splits option.splits)
  with createChatCompletion_calls [OF c] show ?case
    by (intro exI [of _ 0]) simp
next
  case (Suc k)
  obtain x w1 where c: "createChatCompletion (llmProvider modelName)
      (act_request env action steps domElements modelName screenshot) w = (x, w1)"
    by (cases "createChatCompletion (llmProvider modelName)
      (act_request env action steps domElements modelName screenshot) w")
  note cc = createChatCompletion_calls [OF c]
  show ?case
  proof (cases "\<exists>response. x = Inr response \<and> act_attempt env response = None \<and> retries < 2")
    case True
    then obtain response where x: "x = Inr response" and a: "act_attempt env response = None"
      and r: "retries < 2" by blast
    have k: "k = nat (2 - (retries + 1))" using Suc.hyps(2) by simp
    from Suc.hyps(1) [OF k, of None w1] obtain n where
      "calls (snd (act env llmProvider action steps domElements modelName None (retries + 1) w1)) =
       calls w1 @ act_request env action steps domElements modelName None #
         replicate n (act_request env action steps domElements modelName None)"
      by blast
    moreover have "act env llmProvider action steps domElements modelName screenshot retries w =
       act env llmProvider action steps domElements modelName None (retries + 1) w1"
      using c x a r by (subst act_unfold) simp
    ultimately show ?thesis
      using cc by (intro exI [of _ "Suc n"]) simp
  next
    case False
    have "calls (snd (act env llmProvider action steps domElements modelName screenshot retries w))
      = calls w1"
      using False c
      by (subst act_unfold) (auto simp: logger_def split: sum.splits option.splits)
    with cc show ?thesis
      by (intro exI [of _ 0]) simp
  qed
qed

text \<open>
  C5. \<open>act\<close> looks at the first entry of the response's \<open>tool_calls\<close> and at no other.
  When the first tool invocation of the response to the first request is the skip tool
  (\<open>skipSection\<close>), \<open>act\<close> returns \<open>null\<close> at once, whatever the retry counter and
  whatever invocations follow: the resulting world holds exactly one more completion
  request and no new log entry, so no retry was issued.
\<close>

theorem act_skip_tool_returns_null:
  assumes "llmProvider modelName (client_state w)
             (act_request env action steps domElements modelName screenshot) = (Inr response, c')"
    and "tool_calls_of response = Inr (JArr (t # ts) ps)"
    and "get_prop t ''function'' = Inr f"
    and "get_prop f ''name'' = Inr (JStr ''skipSection'')"
  shows "act env llmProvider action steps domElements modelName screenshot retries w =
     (Inr JNull,
      w\<lparr>client_state := c',
        calls := calls w @ [act_request env action steps domElements modelName screenshot]\<rparr>)"
  using act_final_step [where llmProvider = llmProvider and modelName = modelName and w = w
      and response = response and c' = c' and env = env and action = action and steps = steps
      and domElements = domElements and screenshot = screenshot and retries = retries
      and res = "Inr JNull"]
    first_invocation_attempt [OF assms(2) assms(3) assms(4), of env] assms(1)
  by simp

theorem act_skip_tool_returns_null_witness:
  "tool_calls_of (tool_response [tool_call ''skipSection'' ''{}'']) =
     Inr (JArr [tool_call ''skipSection'' ''{}''] []) \<and>
   act example_env (\<lambda>m. scripted_client) ''click the submit button'' None ''7: button''
     ''gpt-4o'' None 0 (initial_world [Inr (tool_response [tool_call ''skipSection'' ''{}''])]) =
   (Inr JNull,
    \<lparr>client_state = [],
     calls = [act_request example_env ''click the submit button'' None ''7: button''
                ''gpt-4o'' None],
     logs = []\<rparr>)"
proof -
  let ?response = "tool_response [tool_call ''skipSection'' ''{}'']"
  let ?w = "initial_world [Inr ?response :: error + jsvalue]"
  have 1: "(\<lambda>m. scripted_client) ''gpt-4o'' (client_state ?w)
             (act_request example_env ''click the submit button'' None ''7: button''
                ''gpt-4o'' None) = (Inr ?response, [])"
    by (simp add: scripted_client_def initial_world_def)
  have 2: "tool_calls_of ?response = Inr (JArr (tool_call ''skipSection'' ''{}'' # []) [])"
    by (simp add: example_simps)
  have 3: "get_prop (tool_call ''skipSection'' ''{}'') ''function'' =
             Inr (JObj [(''name'', JStr ''skipSection''), (''arguments'', JStr ''{}'')])"
    by (simp add: example_simps)
  have 4: "get_prop (JObj [(''name'', JStr ''skipSection''), (''arguments'', JStr ''{}'')])
             ''name'' = Inr (JStr ''skipSection'')"
    by (simp add: example_simps)
  from act_skip_tool_returns_null
      [where llmProvider = "\<lambda>m. scripted_client" and modelName = "''gpt-4o''" and w = ?w
        and env = example_env and action = "''click the submit button''" and steps = None
        and domElements = "''7: button''" and screenshot = None and response = ?response
        and c' = "[]" and t = "tool_call ''skipSection'' ''{}''" and ts = "[]" and ps = "[]"
        and f = "JObj [(''name'', JStr ''skipSection''), (''arguments'', JStr ''{}'')]"
        and retries = 0, OF 1 2 3 4]
  have "act example_env (\<lambda>m. scripted_client) ''click the submit button'' None ''7: button''
     ''gpt-4o'' None 0 ?w =
   (Inr JNull,
      ?w\<lparr>client_state := [],
        calls := calls ?w @ [act_request example_env ''click the submit button'' None
           ''7: button'' ''gpt-4o'' None]\<rparr>)"
    by simp
  with 2 show ?thesis
    by (simp add: initial_world_def)
qed

text \<open>
  A skip invocation that is not the first one does not make \<open>act\<close> return \<open>null\<close>:
  the response with the invocations \<open>doAction\<close> (payload \<open>{}\<close>) and then
  \<open>skipSection\<close> contains the skip tool, and \<open>act\<close> returns the parsed payload of
  \<open>doAction\<close>.
\<close>

theorem act_skip_tool_not_first_counterexample:
  "contains_skip_invocation
     (tool_response [tool_call ''doAction'' ''{}'', tool_call ''skipSection'' ''{}'']) \<and>
   fst (act example_env scripted_provider ''click the submit button'' None ''7: button''
          ''gpt-4o'' None 0
          (initial_world
             [Inr (tool_response
                     [tool_call ''doAction'' ''{}'', tool_call ''skipSection'' ''{}''])])) =
     Inr (JObj []) \<and>
   fst (act example_env scripted_provider ''click the submit button'' None ''7: button''
          ''gpt-4o'' None 0
          (initial_world
             [Inr (tool_response
                     [tool_call ''doAction'' ''{}'', tool_call ''skipSection'' ''{}''])])) \<noteq>
     Inr JNull"
proof -
  let ?response =
    "tool_response [tool_call ''doAction'' ''{}'', tool_call ''skipSection'' ''{}'']"
  let ?f = "JObj [(''name'', JStr ''doAction''), (''arguments'', JStr ''{}'')]"
  let ?w = "initial_world [Inr ?response :: error + jsvalue]"
  let ?req = "act_request example_env ''click the submit button'' None ''7: button''
                ''gpt-4o'' None"
  have contains: "contains_skip_invocation ?response"
    by (simp add: contains_skip_invocation_def invocation_name_def example_simps)
  have 1: "scripted_provider ''gpt-4o'' (client_state ?w) ?req = (Inr ?response, [])"
    by (simp add: scripted_provider_def scripted_client_def initial_world_def)
  have 2: "tool_calls_of ?response =
      Inr (JArr (tool_call ''doAction'' ''{}'' # [tool_call ''skipSection'' ''{}'']) [])"
    by (simp add: example_simps)
  have 3: "get_prop (tool_call ''doAction'' ''{}'') ''function'' = Inr ?f"
    by (simp add: example_simps)
  have 4: "get_prop ?f ''name'' = Inr (JStr ''doAction'')"
    by (simp add: example_simps)
  have attempt: "act_attempt example_env ?response = Some (Inr (JObj []))"
    using first_invocation_attempt [OF 2 3 4, of example_env]
    by (simp add: example_simps example_env_def example_parse_def)
  have "act example_env scripted_provider ''click the submit button'' None ''7: button''
          ''gpt-4o'' None 0 ?w =
        (Inr (JObj []), ?w\<lparr>client_state := [], calls := calls ?w @ [?req]\<rparr>)"
    using act_final_step
      [where llmProvider = scripted_provider and modelName = "''gpt-4o''" and w = ?w
        and env = example_env and action = "''click the submit button''" and steps = None
        and domElements = "''7: button''" and screenshot = None and response = ?response
        and c' = "[]" and res = "Inr (JObj [])" and retries = 0, OF 1 attempt]
    by simp
  with contains show ?thesis
    by simp
qed

text \<open>
  C6. When the tool invocation of the response is not the skip tool and \<open>JSON.parse\<close>
  throws on its argument payload, the thrown value comes out of \<open>act\<close> as it is: one
  completion request, no retry, no log entry and no \<open>null\<close> in place of the error.
\<close>

theorem act_parse_failure_propagates:
  assumes "llmProvider modelName (client_state w)
             (act_request env action steps domElements modelName screenshot) = (Inr response, c')"
    and "tool_calls_of response = Inr (JArr (t # ts) ps)"
    and "get_prop t ''function'' = Inr f"
    and "get_prop f ''name'' = Inr nm"
    and "nm \<noteq> JStr ''skipSection''"
    and "get_prop f ''arguments'' = Inr payload"
    and "JSON_parse env payload = Inl e"
  shows "act env llmProvider action steps domElements modelName screenshot retries w =
     (Inl e,
      w\<lparr>client_state := c',
        calls := calls w @ [act_request env action steps domElements modelName screenshot]\<rparr>)"
  using act_final_step [where llmProvider = llmProvider and modelName = modelName and w = w
      and response = response and c' = c' and env = env and action = action and steps = steps
      and domElements = domElements and screenshot = screenshot and retries = retries
      and res = "Inl e"]
    first_invocation_attempt [OF assms(2) assms(3) assms(4), of env] assms(1,5,6,7)
  by (simp add: ebind_def)

theorem act_parse_failure_propagates_witness:
  "JSON_parse example_env (JStr ''{not json'') = Inl SyntaxError \<and>
   act example_env (\<lambda>m. scripted_client) ''click the submit button'' None ''7: button''
     ''gpt-4o'' None 0
     (initial_world [Inr (tool_response [tool_call ''doAction'' ''{not json''])]) =
   (Inl SyntaxError,
    \<lparr>client_state = [],
     calls = [act_request example_env ''click the submit button'' None ''7: button''
                ''gpt-4o'' None],
     logs = []\<rparr>)"
proof -
  let ?response = "tool_response [tool_call ''doAction'' ''{not json'']"
  let ?f = "JObj [(''name'', JStr ''doAction''), (''arguments'', JStr ''{not json'')]"
  let ?w = "initial_world [Inr ?response :: error + jsvalue]"
  have 1: "(\<lambda>m. scripted_client) ''gpt-4o'' (client_state ?w)
             (act_request example_env ''click the submit button'' None ''7: button''
                ''gpt-4o'' None) = (Inr ?response, [])"
    by (simp add: scripted_client_def initial_world_def)
  have 2: "tool_calls_of ?response = Inr (JArr (tool_call ''doAction'' ''{not json'' # []) [])"
    by (simp add: example_simps)
  have 3: "get_prop (tool_call ''doAction'' ''{not json'') ''function'' = Inr ?f"
    by (simp add: example_simps)
  have 4: "get_prop ?f ''name'' = Inr (JStr ''doAction'')"
    by (simp add: example_simps)
  have 5: "JStr ''doAction'' \<noteq> JStr ''skipSection''"
    by simp
  have 6: "get_prop ?f ''arguments'' = Inr (JStr ''{not json'')"
    by (simp add: example_simps)
  have 7: "JSON_parse example_env (JStr ''{not json'') = Inl SyntaxError"
    by (simp add: example_env_def example_parse_def)
  from act_parse_failure_propagates
      [where llmProvider = "\<lambda>m. scripted_client" and modelName = "''gpt-4o''" and w = ?w
        and env = example_env and action = "''click the submit button''" and steps = None
        and domElements = "''7: button''" and screenshot = None and response = ?response
        and c' = "[]" and t = "tool_call ''doAction'' ''{not json''" and ts = "[]"
        and ps = "[]" and f = ?f and nm = "JStr ''doAction''"
        and payload = "JStr ''{not json''" and e = SyntaxError and retries = 0,
        OF 1 2 3 4 5 6 7]
  have "act example_env (\<lambda>m. scripted_client) ''click the submit button'' None ''7: button''
     ''gpt-4o'' None 0 ?w =
   (Inl SyntaxError,
      ?w\<lparr>client_state := [],
        calls := calls ?w @ [act_request example_env ''click the submit button'' None
           ''7: button'' ''gpt-4o'' None]\<rparr>)"
    by simp
  with 7 show ?thesis
    by (simp add: initial_world_def)
qed

text \<open>
  C10. When the response carries two or more tool invocations, the outcome of \<open>act\<close> is
  a function of the first one alone: \<open>null\<close> if its name is \<open>skipSection\<close>, the
  result of parsing its arguments otherwise. The invocations after it do not occur in the
  outcome.
\<close>

theorem act_decides_on_first_invocation:
  assumes "llmProvider modelName (client_state w)
             (act_request env action steps domElements modelName screenshot) = (Inr response, c')"
    and "tool_calls_of response = Inr (JArr (t # t' # ts) ps)"
    and "get_prop t ''function'' = Inr f"
    and "get_prop f ''name'' = Inr nm"
  shows "act env llmProvider action steps domElements modelName screenshot retries w =
     (if nm = JStr ''skipSection'' then Inr JNull
      else ebind (get_prop f ''arguments'') (JSON_parse env),
      w\<lparr>client_state := c',
        calls := calls w @ [act_request env action steps domElements modelName screenshot]\<rparr>)"
  using act_final_step [where llmProvider = llmProvider and modelName = modelName and w = w
      and response = response and c' = c' and env = env and action = action and steps = steps
      and domElements = domElements and screenshot = screenshot and retries = retries
      and res = "if nm = JStr ''skipSection'' then Inr JNull
                 else ebind (get_prop f ''arguments'') (JSON_parse env)"]
    first_invocation_attempt [OF assms(2) assms(3) assms(4), of env] assms(1)
  by simp

theorem act_decides_on_first_invocation_witness:
  "tool_calls_of (tool_response [tool_call ''doAction'' ''[7]'', tool_call ''skipSection'' ''{}''])
     = Inr (JArr [tool_call ''doAction'' ''[7]'', tool_call ''skipSection'' ''{}''] []) \<and>
   act example_env (\<lambda>m. scripted_client) ''click the submit button'' None ''7: button''
     ''gpt-4o'' None 0
     (initial_world
        [Inr (tool_response [tool_call ''doAction'' ''[7]'', tool_call ''skipSection'' ''{}''])]) =
   (Inr (JArr [JNum 7] []),
    \<lparr>client_state = [],
     calls = [act_request example_env ''click the submit button'' None ''7: button''
                ''gpt-4o'' None],
     logs = []\<rparr>)"
proof -
  let ?response =
    "tool_response [tool_call ''doAction'' ''[7]'', tool_call ''skipSection'' ''{}'']"
  let ?f = "JObj [(''name'', JStr ''doAction''), (''arguments'', JStr ''[7]'')]"
  let ?w = "initial_world [Inr ?response :: error + jsvalue]"
  have 1: "(\<lambda>m. scripted_client) ''gpt-4o'' (client_state ?w)
             (act_request example_env ''click the submit button'' None ''7: button''
                ''gpt-4o'' None) = (Inr ?response, [])"
    by (simp add: scripted_client_def initial_world_def)
  have 2: "tool_calls_of ?response =
      Inr (JArr (tool_call ''doAction'' ''[7]'' # tool_call ''skipSection'' ''{}'' # []) [])"
    by (simp add: example_simps)
  have 3: "get_prop (tool_call ''doAction'' ''[7]'') ''function'' = Inr ?f"
    by (simp add: example_simps)
  have 4: "get_prop ?f ''name'' = Inr (JStr ''doAction'')"
    by (simp add: example_simps)
  from act_decides_on_first_invocation
      [where llmProvider = "\<lambda>m. scripted_client" and modelName = "''gpt-4o''" and w = ?w
        and env = example_env and action = "''click the submit button''" and steps = None
        and domElements = "''7: button''" and screenshot = None and response = ?response
        and c' = "[]" and t = "tool_call ''doAction'' ''[7]''"
        and t' = "tool_call ''skipSection'' ''{}''" and ts = "[]"
        and ps = "[]" and f = ?f and nm = "JStr ''doAction''" and retries = 0,
        OF 1 2 3 4]
  have "act example_env (\<lambda>m. scripted_client) ''click the submit button'' None ''7: button''
     ''gpt-4o'' None 0 ?w =
   (Inr (JArr [JNum 7] []),
      ?w\<lparr>client_state := [],
        calls := calls ?w @ [act_request example_env ''click the submit button'' None
           ''7: button'' ''gpt-4o'' None]\<rparr>)"
    by (simp add: example_simps example_env_def example_parse_def)
  with 2 show ?thesis
    by (simp add: initial_world_def)
qed

text \<open>
  C9. Every completion request that \<open>act\<close> issues after its first one carries no image:
  the requests of one call are the first request, built with the caller's screenshot,
  followed by some number of requests built without one. The retry itself is the same call
  with the same action, steps, elements, provider and model, the counter increased by one
  and no screenshot.
\<close>

theorem act_retries_without_screenshot:
  "(\<exists>n. calls (snd (act env llmProvider action steps domElements modelName screenshot retries w)) =
      calls w @ act_request env action steps domElements modelName screenshot #
        replicate n (act_request env action steps domElements modelName None)) \<and>
   image (act_request env action steps domElements modelName None) = None \<and>
   (\<forall>response c'.
      llmProvider modelName (client_state w)
        (act_request env action steps domElements modelName screenshot) = (Inr response, c') \<and>
      no_tool_invocations response \<and> retries < 2 \<longrightarrow>
      act env llmProvider action steps domElements modelName screenshot retries w =
      act env llmProvider action steps domElements modelName None (retries + 1)
        (w\<lparr>client_state := c',
           calls := calls w @
             [act_request env action steps domElements modelName screenshot]\<rparr>))"
proof (intro conjI allI impI)
  show "\<exists>n. calls (snd (act env llmProvider action steps domElements modelName screenshot
      retries w)) =
      calls w @ act_request env action steps domElements modelName screenshot #
        replicate n (act_request env action steps domElements modelName None)"
    by (rule act_calls_shape)
  show "image (act_request env action steps domElements modelName None) = None"
    by (simp add: act_request_def annotated_image_def)
next
  fix response c'
  assume h: "llmProvider modelName (client_state w)
        (act_request env action steps domElements modelName screenshot) = (Inr response, c') \<and>
      no_tool_invocations response \<and> retries < 2"
  then have "act_attempt env response = None"
    by (simp add: no_tool_invocations_attempt)
  with h show "act env llmProvider action steps domElements modelName screenshot retries w =
      act env llmProvider action steps domElements modelName None (retries + 1)
        (w\<lparr>client_state := c',
           calls := calls w @
             [act_request env action steps domElements modelName screenshot]\<rparr>)"
    by (subst act_unfold) (simp add: createChatCompletion_def)
qed

theorem act_retries_without_screenshot_witness:
  "no_tool_invocations (text_response ''I cannot help'') \<and>
   image (act_request example_env ''click the submit button'' None ''7: button'' ''gpt-4o''
            (Some [137, 80])) =
     Some \<lparr>buffer = [137, 80], description = ''annotated screenshot''\<rparr> \<and>
   act example_env (\<lambda>m. constant_client (text_response ''I cannot help''))
     ''click the submit button'' None ''7: button'' ''gpt-4o'' (Some [137, 80]) 0
     (initial_world (0::nat)) =
   act example_env (\<lambda>m. constant_client (text_response ''I cannot help''))
     ''click the submit button'' None ''7: button'' ''gpt-4o'' None 1
     \<lparr>client_state = 1,
      calls = [act_request example_env ''click the submit button'' None ''7: button''
                 ''gpt-4o'' (Some [137, 80])],
      logs = []\<rparr>"
proof -
  let ?response = "text_response ''I cannot help''"
  let ?req = "act_request example_env ''click the submit button'' None ''7: button''
                ''gpt-4o'' (Some [137, 80])"
  have 1: "constant_client ?response (client_state (initial_world (0::nat))) ?req =
             (Inr ?response, 1)"
    by (simp add: constant_client_def initial_world_def)
  have 2: "no_tool_invocations ?response"
    by (simp add: no_tool_invocations_def example_simps)
  have 3: "image ?req = Some \<lparr>buffer = [137, 80], description = ''annotated screenshot''\<rparr>"
    by (simp add: act_request_def annotated_image_def example_env_def)
  from act_retries_without_screenshot
      [where llmProvider = "\<lambda>m. constant_client ?response" and modelName = "''gpt-4o''"
        and w = "initial_world (0::nat)" and env = example_env
        and action = "''click the submit button''" and steps = None
        and domElements = "''7: button''" and screenshot = "Some [137, 80]" and retries = 0]
    1 2
  have "act example_env (\<lambda>m. constant_client ?response)
     ''click the submit button'' None ''7: button'' ''gpt-4o'' (Some [137, 80]) 0
     (initial_world (0::nat)) =
   act example_env (\<lambda>m. constant_client ?response)
     ''click the submit button'' None ''7: button'' ''gpt-4o'' None 1
     ((initial_world (0::nat))\<lparr>client_state := 1, calls := calls (initial_world (0::nat)) @ [?req]\<rparr>)"
    by simp
  with 2 3 show ?thesis
    by (simp add: initial_world_def)
qed

section \<open>Properties of the Extraction Pipeline\<close>

text \<open>
  C2. When the three completion calls succeed and the second returns an object (the caller's
  schema is an object schema), the pipeline issues exactly the extract, refine and metadata
  requests in this order; the refine prompt is built from stage 1's response as it came;
  and the result is stage 2's object with the field \<open>metadata\<close> set to stage 3's
  response, every other field as stage 2 returned it. Stage 3 is requested under the
  schema with a string \<open>progress\<close> and a boolean \<open>completed\<close>.
\<close>

theorem extract_three_stage_pipeline:
  assumes "llmProvider modelName (client_state w)
             (extraction_request env instruction domElements sch modelName) = (Inr r1, c1)"
    and "llmProvider modelName c1
             (refine_request env instruction previous r1 sch modelName) = (Inr r2, c2)"
    and "llmProvider modelName c2
             (metadata_request env instruction r2 chunksSeen chunksTotal modelName) = (Inr r3, c3)"
    and "r2 = JObj kvs"
  shows "extract_op env llmProvider instruction progress previous domElements sch modelName
           chunksSeen chunksTotal w =
         (Inr (JObj (AList.update ''metadata'' r3 kvs)),
          w\<lparr>client_state := c3,
            calls := calls w @
              [extraction_request env instruction domElements sch modelName,
               refine_request env instruction previous r1 sch modelName,
               metadata_request env instruction r2 chunksSeen chunksTotal modelName]\<rparr>) \<and>
         messages (refine_request env instruction previous r1 sch modelName) =
           [buildRefineSystemPrompt env, buildRefineUserPrompt env instruction previous r1] \<and>
         get_prop (JObj (AList.update ''metadata'' r3 kvs)) ''metadata'' = Inr r3 \<and>
         (\<forall>k. k \<noteq> ''metadata'' \<longrightarrow>
            get_prop (JObj (AList.update ''metadata'' r3 kvs)) k = get_prop r2 k) \<and>
         response_model (metadata_request env instruction r2 chunksSeen chunksTotal modelName) =
           Some \<lparr>name = ''Metadata'', schema = metadataSchema\<rparr> \<and>
         (\<exists>d1 d2. metadataSchema =
            ZObject [(''progress'', ZDescribe ZString d1), (''completed'', ZDescribe ZBoolean d2)])"
proof (intro conjI)
  show "extract_op env llmProvider instruction progress previous domElements sch modelName
           chunksSeen chunksTotal w =
         (Inr (JObj (AList.update ''metadata'' r3 kvs)),
          w\<lparr>client_state := c3,
            calls := calls w @
              [extraction_request env instruction domElements sch modelName,
               refine_request env instruction previous r1 sch modelName,
               metadata_request env instruction r2 chunksSeen chunksTotal modelName]\<rparr>)"
    using assms by (simp add: extract_op_def createChatCompletion_def)
  show "messages (refine_request env instruction previous r1 sch modelName) =
           [buildRefineSystemPrompt env, buildRefineUserPrompt env instruction previous r1]"
    by (simp add: refine_request_def)
  show "get_prop (JObj (AList.update ''metadata'' r3 kvs)) ''metadata'' = Inr r3"
    by (simp add: lookup_prop_def update_conv')
  show "\<forall>k. k \<noteq> ''metadata'' \<longrightarrow>
            get_prop (JObj (AList.update ''metadata'' r3 kvs)) k = get_prop r2 k"
    using assms(4) by (simp add: lookup_prop_def update_conv')
  show "response_model (metadata_request env instruction r2 chunksSeen chunksTotal modelName) =
           Some \<lparr>name = ''Metadata'', schema = metadataSchema\<rparr>"
    by (simp add: metadata_request_def)
  show "\<exists>d1 d2. metadataSchema =
            ZObject [(''progress'', ZDescribe ZString d1), (''completed'', ZDescribe ZBoolean d2)]"
    by (simp add: metadataSchema_def)
qed

theorem extract_three_stage_pipeline_witness:
  "extract_op example_env (\<lambda>m. scripted_client) ''list the items'' ''nothing yet''
     (JObj [(''items'', JArr [] [])]) ''1: A'' (ZObject [(''items'', ZArray ZString)]) ''gpt-4o''
     1 2
     (initial_world
        [Inr (JObj [(''items'', JArr [JStr ''A''] [])]),
         Inr (JObj [(''items'', JArr [JStr ''A''] [])]),
         Inr (JObj [(''progress'', JStr ''found 1 item''), (''completed'', JBool False)])]) =
   (Inr (JObj [(''items'', JArr [JStr ''A''] []),
               (''metadata'',
                JObj [(''progress'', JStr ''found 1 item''), (''completed'', JBool False)])]),
    \<lparr>client_state = [],
     calls =
       [extraction_request example_env ''list the items'' ''1: A''
          (ZObject [(''items'', ZArray ZString)]) ''gpt-4o'',
        refine_request example_env ''list the items'' (JObj [(''items'', JArr [] [])])
          (JObj [(''items'', JArr [JStr ''A''] [])]) (ZObject [(''items'', ZArray ZString)])
          ''gpt-4o'',
        metadata_request example_env ''list the items''
          (JObj [(''items'', JArr [JStr ''A''] [])]) 1 2 ''gpt-4o''],
     logs = []\<rparr>)"
proof -
  let ?r1 = "JObj [(''items'', JArr [JStr ''A''] [])]"
  let ?r3 = "JObj [(''progress'', JStr ''found 1 item''), (''completed'', JBool False)]"
  let ?sch = "ZObject [(''items'', ZArray ZString)]"
  let ?prev = "JObj [(''items'', JArr [] [])]"
  let ?w = "initial_world [Inr ?r1, Inr ?r1, Inr ?r3 :: error + jsvalue]"
  have 1: "(\<lambda>m. scripted_client) ''gpt-4o'' (client_state ?w)
             (extraction_request example_env ''list the items'' ''1: A'' ?sch ''gpt-4o'') =
           (Inr ?r1, [Inr ?r1, Inr ?r3])"
    by (simp add: scripted_client_def initial_world_def)
  have 2: "(\<lambda>m. scripted_client) ''gpt-4o'' [Inr ?r1, Inr ?r3]
             (refine_request example_env ''list the items'' ?prev ?r1 ?sch ''gpt-4o'') =
           (Inr ?r1, [Inr ?r3])"
    by (simp add: scripted_client_def)
  have 3: "(\<lambda>m. scripted_client) ''gpt-4o'' [Inr ?r3]
             (metadata_request example_env ''list the items'' ?r1 1 2 ''gpt-4o'') =
           (Inr ?r3, [])"
    by (simp add: scripted_client_def)
  have 4: "?r1 = JObj [(''items'', JArr [JStr ''A''] [])]"
    by simp
  from extract_three_stage_pipeline
      [where llmProvider = "\<lambda>m. scripted_client" and modelName = "''gpt-4o''" and w = ?w
        and env = example_env and instruction = "''list the items''"
        and domElements = "''1: A''" and sch = ?sch and previous = ?prev
        and chunksSeen = 1 and chunksTotal = 2 and progress = "''nothing yet''"
        and ?r1.0 = ?r1 and ?r2.0 = ?r1 and ?r3.0 = ?r3
        and ?c1.0 = "[Inr ?r1, Inr ?r3]" and ?c2.0 = "[Inr ?r3]" and ?c3.0 = "[]"
        and kvs = "[(''items'', JArr [JStr ''A''] [])]", OF 1 2 3 4]
  show ?thesis
    by (simp add: initial_world_def)
qed

text \<open>
  C7. Whichever of the three completion calls fails, the pipeline returns that failure
  unchanged and issues no further request: one request when stage 1 fails, two when stage 2
  fails, three when stage 3 fails. No value is returned in any of these cases.
\<close>

theorem extract_failure_propagates:
  "(llmProvider modelName (client_state w)
      (extraction_request env instruction domElements sch modelName) = (Inl e, c1) \<longrightarrow>
    extract_op env llmProvider instruction progress previous domElements sch modelName
      chunksSeen chunksTotal w =
    (Inl e,
     w\<lparr>client_state := c1,
       calls := calls w @ [extraction_request env instruction domElements sch modelName]\<rparr>)) \<and>
   (llmProvider modelName (client_state w)
      (extraction_request env instruction domElements sch modelName) = (Inr r1, c1) \<and>
    llmProvider modelName c1
      (refine_request env instruction previous r1 sch modelName) = (Inl e, c2) \<longrightarrow>
    extract_op env llmProvider instruction progress previous domElements sch modelName
      chunksSeen chunksTotal w =
    (Inl e,
     w\<lparr>client_state := c2,
       calls := calls w @
         [extraction_request env instruction domElements sch modelName,
          refine_request env instruction previous r1 sch modelName]\<rparr>)) \<and>
   (llmProvider modelName (client_state w)
      (extraction_request env instruction domElements sch modelName) = (Inr r1, c1) \<and>
    llmProvider modelName c1
      (refine_request env instruction previous r1 sch modelName) = (Inr r2, c2) \<and>
    llmProvider modelName c2
      (metadata_request env instruction r2 chunksSeen chunksTotal modelName) = (Inl e, c3) \<longrightarrow>
    extract_op env llmProvider instruction progress previous domElements sch modelName
      chunksSeen chunksTotal w =
    (Inl e,
     w\<lparr>client_state := c3,
       calls := calls w @
         [extraction_request env instruction domElements sch modelName,
          refine_request env instruction previous r1 sch modelName,
          metadata_request env instruction r2 chunksSeen chunksTotal modelName]\<rparr>))"
proof (intro conjI impI)
  let ?stage1 = "extraction_request env instruction domElements sch modelName"
  let ?stage2 = "refine_request env instruction previous r1 sch modelName"
  let ?stage3 = "metadata_request env instruction r2 chunksSeen chunksTotal modelName"
  let ?run = "extract_op env llmProvider instruction progress previous domElements sch
                modelName chunksSeen chunksTotal w"
  {
    assume "llmProvider modelName (client_state w) ?stage1 = (Inl e, c1)"
    then have "createChatCompletion (llmProvider modelName) ?stage1 w =
        (Inl e, w\<lparr>client_state := c1, calls := calls w @ [?stage1]\<rparr>)"
      by (simp add: createChatCompletion_def)
    then show "?run = (Inl e, w\<lparr>client_state := c1, calls := calls w @ [?stage1]\<rparr>)"
      by (simp add: extract_op_def)
  }
  let ?w1 = "w\<lparr>client_state := c1, calls := calls w @ [?stage1]\<rparr>"
  {
    assume "llmProvider modelName (client_state w) ?stage1 = (Inr r1, c1) \<and>
            llmProvider modelName c1 ?stage2 = (Inl e, c2)"
    then have "createChatCompletion (llmProvider modelName) ?stage1 w = (Inr r1, ?w1)"
      and "createChatCompletion (llmProvider modelName) ?stage2 ?w1 =
        (Inl e, w\<lparr>client_state := c2, calls := calls w @ [?stage1, ?stage2]\<rparr>)"
      by (simp_all add: createChatCompletion_def)
    then show "?run =
        (Inl e, w\<lparr>client_state := c2, calls := calls w @ [?stage1, ?stage2]\<rparr>)"
      by (simp add: extract_op_def)
  }
  let ?w2 = "w\<lparr>client_state := c2, calls := calls w @ [?stage1, ?stage2]\<rparr>"
  {
    assume "llmProvider modelName (client_state w) ?stage1 = (Inr r1, c1) \<and>
            llmProvider modelName c1 ?stage2 = (Inr r2, c2) \<and>
            llmProvider modelName c2 ?stage3 = (Inl e, c3)"
    then have "createChatCompletion (llmProvider modelName) ?stage1 w = (Inr r1, ?w1)"
      and "createChatCompletion (llmProvider modelName) ?stage2 ?w1 = (Inr r2, ?w2)"
      and "createChatCompletion (llmProvider modelName) ?stage3 ?w2 =
        (Inl e,
         w\<lparr>client_state := c3, calls := calls w @ [?stage1, ?stage2, ?stage3]\<rparr>)"
      by (simp_all add: createChatCompletion_def)
    then show "?run =
        (Inl e,
         w\<lparr>client_state := c3, calls := calls w @ [?stage1, ?stage2, ?stage3]\<rparr>)"
      by (simp add: extract_op_def)
  }
qed

theorem extract_failure_propagates_witness:
  "extract_op example_env (\<lambda>m. scripted_client) ''list the items'' ''nothing yet''
     (JObj []) ''1: A'' (ZObject [(''items'', ZArray ZString)]) ''gpt-4o'' 1 2
     (initial_world [Inl (Error ''rate limit'')]) =
   (Inl (Error ''rate limit''),
    \<lparr>client_state = [],
     calls = [extraction_request example_env ''list the items'' ''1: A''
                (ZObject [(''items'', ZArray ZString)]) ''gpt-4o''],
     logs = []\<rparr>) \<and>
   fst (extract_op example_env (\<lambda>m. scripted_client) ''list the items'' ''nothing yet''
     (JObj []) ''1: A'' (ZObject [(''items'', ZArray ZString)]) ''gpt-4o'' 1 2
     (initial_world [Inr (JObj [(''items'', JArr [JStr ''A''] [])]),
                     Inl (Error ''rate limit'')])) =
   Inl (Error ''rate limit'') \<and>
   fst (extract_op example_env (\<lambda>m. scripted_client) ''list the items'' ''nothing yet''
     (JObj []) ''1: A'' (ZObject [(''items'', ZArray ZString)]) ''gpt-4o'' 1 2
     (initial_world [Inr (JObj [(''items'', JArr [JStr ''A''] [])]),
                     Inr (JObj [(''items'', JArr [JStr ''A''] [])]),
                     Inl (Error ''rate limit'')])) =
   Inl (Error ''rate limit'')"
proof -
  let ?r1 = "JObj [(''items'', JArr [JStr ''A''] [])]"
  let ?e = "Error ''rate limit''"
  let ?sch = "ZObject [(''items'', ZArray ZString)]"
  note a = extract_failure_propagates
      [where llmProvider = "\<lambda>m. scripted_client" and modelName = "''gpt-4o''"
        and w = "initial_world [Inl ?e :: error + jsvalue]"
        and env = example_env and instruction = "''list the items''"
        and domElements = "''1: A''" and sch = ?sch and previous = "JObj []"
        and chunksSeen = 1 and chunksTotal = 2 and progress = "''nothing yet''"
        and e = ?e and ?c1.0 = "[]"]
  note b = extract_failure_propagates
      [where llmProvider = "\<lambda>m. scripted_client" and modelName = "''gpt-4o''"
        and w = "initial_world [Inr ?r1, Inl ?e :: error + jsvalue]"
        and env = example_env and instruction = "''list the items''"
        and domElements = "''1: A''" and sch = ?sch and previous = "JObj []"
        and chunksSeen = 1 and chunksTotal = 2 and progress = "''nothing yet''"
        and e = ?e and ?r1.0 = ?r1 and ?c1.0 = "[Inl ?e]" and ?c2.0 = "[]"]
  note c = extract_failure_propagates
      [where llmProvider = "\<lambda>m. scripted_client" and modelName = "''gpt-4o''"
        and w = "initial_world [Inr ?r1, Inr ?r1, Inl ?e :: error + jsvalue]"
        and env = example_env and instruction = "''list the items''"
        and domElements = "''1: A''" and sch = ?sch and previous = "JObj []"
        and chunksSeen = 1 and chunksTotal = 2 and progress = "''nothing yet''"
        and e = ?e and ?r1.0 = ?r1 and ?r2.0 = ?r1 and ?c1.0 = "[Inr ?r1, Inl ?e]"
        and ?c2.0 = "[Inl ?e]" and ?c3.0 = "[]"]
  from a b c show ?thesis
    by (simp add: scripted_client_def initial_world_def)
qed

section \<open>Properties of the Completion Verifier\<close>

text \<open>
  C3. Whatever value the completion client returns, \<open>verifyActCompletion\<close> returns
  normally. A response that is not an object gives \<open>false\<close> and the diagnostic
  "Unexpected response format"; an object without the field \<open>completed\<close> (the source
  tests \<open>response.completed === undefined\<close>) gives \<open>false\<close> and the diagnostic
  "Missing 'completed' field"; an object with the field gives the field's value and no
  diagnostic.
\<close>

theorem verifyActCompletion_tolerates_malformed:
  assumes "llmProvider modelName (client_state w)
             (verify_request env goal steps modelName screenshot domElements) = (Inr response, c')"
  shows "(\<not> is_object response \<longrightarrow>
            verifyActCompletion env llmProvider goal steps modelName screenshot domElements w =
            (Inr (JBool False),
             w\<lparr>client_state := c',
               calls := calls w @
                 [verify_request env goal steps modelName screenshot domElements],
               logs := logs w @
                 [\<lparr>category = Some ''VerifyAct'',
                   message = unexpected_format_message env response\<rparr>]\<rparr>)) \<and>
         (is_object response \<and> get_prop response ''completed'' = Inr JUndefined \<longrightarrow>
            verifyActCompletion env llmProvider goal steps modelName screenshot domElements w =
            (Inr (JBool False),
             w\<lparr>client_state := c',
               calls := calls w @
                 [verify_request env goal steps modelName screenshot domElements],
               logs := logs w @
                 [\<lparr>category = Some ''VerifyAct'',
                   message = ''Missing 'completed' field in response''\<rparr>]\<rparr>)) \<and>
         (\<forall>v. is_object response \<and> get_prop response ''completed'' = Inr v \<and> v \<noteq> JUndefined \<longrightarrow>
            verifyActCompletion env llmProvider goal steps modelName screenshot domElements w =
            (Inr v,
             w\<lparr>client_state := c',
               calls := calls w @
                 [verify_request env goal steps modelName screenshot domElements]\<rparr>)) \<and>
         (\<exists>v. fst (verifyActCompletion env llmProvider goal steps modelName screenshot
                     domElements w) = Inr v)"
  using assms
  by (cases response)
     (simp_all add: verifyActCompletion_def createChatCompletion_def is_object_def logger_def)

theorem verifyActCompletion_tolerates_malformed_witness:
  "verifyActCompletion example_env (\<lambda>m. scripted_client) ''submit the form'' ''clicked submit''
     ''gpt-4o'' None None (initial_world [Inr JNull]) =
   (Inr (JBool False),
    \<lparr>client_state = [],
     calls = [verify_request example_env ''submit the form'' ''clicked submit'' ''gpt-4o''
                None None],
     logs = [\<lparr>category = Some ''VerifyAct'',
              message = ''Unexpected response format: null''\<rparr>]\<rparr>) \<and>
   verifyActCompletion example_env (\<lambda>m. scripted_client) ''submit the form'' ''clicked submit''
     ''gpt-4o'' None None (initial_world [Inr (JObj [(''done'', JBool True)])]) =
   (Inr (JBool False),
    \<lparr>client_state = [],
     calls = [verify_request example_env ''submit the form'' ''clicked submit'' ''gpt-4o''
                None None],
     logs = [\<lparr>category = Some ''VerifyAct'',
              message = ''Missing 'completed' field in response''\<rparr>]\<rparr>) \<and>
   verifyActCompletion example_env (\<lambda>m. scripted_client) ''submit the form'' ''clicked submit''
     ''gpt-4o'' None None (initial_world [Inr (JObj [(''completed'', JBool True)])]) =
   (Inr (JBool True),
    \<lparr>client_state = [],
     calls = [verify_request example_env ''submit the form'' ''clicked submit'' ''gpt-4o''
                None None],
     logs = []\<rparr>)"
proof -
  let ?req = "verify_request example_env ''submit the form'' ''clicked submit'' ''gpt-4o''
                None None"
  have 1: "(\<lambda>m. scripted_client) ''gpt-4o''
             (client_state (initial_world [Inr JNull :: error + jsvalue])) ?req =
           (Inr JNull, [])"
    by (simp add: scripted_client_def initial_world_def)
  have 2: "(\<lambda>m. scripted_client) ''gpt-4o''
             (client_state (initial_world [Inr (JObj [(''done'', JBool True)])
                :: error + jsvalue])) ?req =
           (Inr (JObj [(''done'', JBool True)]), [])"
    by (simp add: scripted_client_def initial_world_def)
  have 3: "(\<lambda>m. scripted_client) ''gpt-4o''
             (client_state (initial_world [Inr (JObj [(''completed'', JBool True)])
                :: error + jsvalue])) ?req =
           (Inr (JObj [(''completed'', JBool True)]), [])"
    by (simp add: scripted_client_def initial_world_def)
  note a = verifyActCompletion_tolerates_malformed
      [where llmProvider = "\<lambda>m. scripted_client" and modelName = "''gpt-4o''"
        and w = "initial_world [Inr JNull :: error + jsvalue]" and env = example_env
        and goal = "''submit the form''" and steps = "''clicked submit''"
        and screenshot = None and domElements = None and response = JNull and c' = "[]",
        OF 1]
  note b = verifyActCompletion_tolerates_malformed
      [where llmProvider = "\<lambda>m. scripted_client" and modelName = "''gpt-4o''"
        and w = "initial_world [Inr (JObj [(''done'', JBool True)]) :: error + jsvalue]"
        and env = example_env
        and goal = "''submit the form''" and steps = "''clicked submit''"
        and screenshot = None and domElements = None
        and response = "JObj [(''done'', JBool True)]" and c' = "[]", OF 2]
  note c = verifyActCompletion_tolerates_malformed
      [where llmProvider = "\<lambda>m. scripted_client" and modelName = "''gpt-4o''"
        and w = "initial_world [Inr (JObj [(''completed'', JBool True)]) :: error + jsvalue]"
        and env = example_env
        and goal = "''submit the form''" and steps = "''clicked submit''"
        and screenshot = None and domElements = None
        and response = "JObj [(''completed'', JBool True)]" and c' = "[]", OF 3]
  from a b c show ?thesis
    by (simp add: initial_world_def is_object_def lookup_prop_def unexpected_format_message_def
        example_env_def example_stringify_def)
qed

section \<open>Properties of the Observation Resolver\<close>

text \<open>
  C4. A \<open>null\<close> or \<open>undefined\<close> response makes \<open>observe\<close> throw
  "no response when finding a selector". A response object whose \<open>elements\<close> is an
  empty array, and likewise an empty array itself, is returned unchanged.
\<close>

theorem observe_empty_is_returned_null_raises:
  assumes "llmProvider modelName (client_state w)
             (observe_request env instruction domElements modelName img) = (Inr response, c')"
  shows "(response = JNull \<or> response = JUndefined \<longrightarrow>
            observe env llmProvider instruction domElements modelName img w =
            (Inl (Error ''no response when finding a selector''),
             w\<lparr>client_state := c',
               calls := calls w @
                 [observe_request env instruction domElements modelName img]\<rparr>)) \<and>
         ((\<exists>kvs ps. response = JObj kvs \<and> get_prop response ''elements'' = Inr (JArr [] ps)) \<longrightarrow>
            observe env llmProvider instruction domElements modelName img w =
            (Inr response,
             w\<lparr>client_state := c',
               calls := calls w @
                 [observe_request env instruction domElements modelName img]\<rparr>)) \<and>
         ((\<exists>ps. response = JArr [] ps) \<longrightarrow>
            observe env llmProvider instruction domElements modelName img w =
            (Inr response,
             w\<lparr>client_state := c',
               calls := calls w @
                 [observe_request env instruction domElements modelName img]\<rparr>))"
  using assms by (auto simp: observe_def createChatCompletion_def)

theorem observe_empty_is_returned_null_raises_witness:
  "observe example_env (\<lambda>m. scripted_client) ''find the submit button'' ''7: button''
     ''gpt-4o'' None (initial_world [Inr JNull]) =
   (Inl (Error ''no response when finding a selector''),
    \<lparr>client_state = [],
     calls = [observe_request example_env ''find the submit button'' ''7: button'' ''gpt-4o''
                None],
     logs = []\<rparr>) \<and>
   observe example_env (\<lambda>m. scripted_client) ''find the submit button'' ''7: button''
     ''gpt-4o'' None (initial_world [Inr (JObj [(''elements'', JArr [] [])])]) =
   (Inr (JObj [(''elements'', JArr [] [])]),
    \<lparr>client_state = [],
     calls = [observe_request example_env ''find the submit button'' ''7: button'' ''gpt-4o''
                None],
     logs = []\<rparr>) \<and>
   observe example_env (\<lambda>m. scripted_client) ''find the submit button'' ''7: button''
     ''gpt-4o'' None (initial_world [Inr (JArr [] [])]) =
   (Inr (JArr [] []),
    \<lparr>client_state = [],
     calls = [observe_request example_env ''find the submit button'' ''7: button'' ''gpt-4o''
                None],
     logs = []\<rparr>)"
proof -
  let ?req = "observe_request example_env ''find the submit button'' ''7: button'' ''gpt-4o''
                None"
  have 1: "(\<lambda>m. scripted_client) ''gpt-4o''
             (client_state (initial_world [Inr JNull :: error + jsvalue])) ?req =
           (Inr JNull, [])"
    by (simp add: scripted_client_def initial_world_def)
  have 2: "(\<lambda>m. scripted_client) ''gpt-4o''
             (client_state (initial_world [Inr (JObj [(''elements'', JArr [] [])])
                :: error + jsvalue])) ?req =
           (Inr (JObj [(''elements'', JArr [] [])]), [])"
    by (simp add: scripted_client_def initial_world_def)
  have 3: "(\<lambda>m. scripted_client) ''gpt-4o''
             (client_state (initial_world [Inr (JArr [] []) :: error + jsvalue])) ?req =
           (Inr (JArr [] []), [])"
    by (simp add: scripted_client_def initial_world_def)
  note a = observe_empty_is_returned_null_raises
      [where llmProvider = "\<lambda>m. scripted_client" and modelName = "''gpt-4o''"
        and w = "initial_world [Inr JNull :: error + jsvalue]" and env = example_env
        and instruction = "''find the submit button''" and domElements = "''7: button''"
        and img = None and response = JNull and c' = "[]", OF 1]
  note b = observe_empty_is_returned_null_raises
      [where llmProvider = "\<lambda>m. scripted_client" and modelName = "''gpt-4o''"
        and w = "initial_world [Inr (JObj [(''elements'', JArr [] [])]) :: error + jsvalue]"
        and env = example_env
        and instruction = "''find the submit button''" and domElements = "''7: button''"
        and img = None and response = "JObj [(''elements'', JArr [] [])]" and c' = "[]", OF 2]
  note c = observe_empty_is_returned_null_raises
      [where llmProvider = "\<lambda>m. scripted_client" and modelName = "''gpt-4o''"
        and w = "initial_world [Inr (JArr [] []) :: error + jsvalue]" and env = example_env
        and instruction = "''find the submit button''" and domElements = "''7: button''"
        and img = None and response = "JArr [] []" and c' = "[]", OF 3]
  from a b c show ?thesis
    by (simp add: initial_world_def lookup_prop_def)
qed

section \<open>Properties of the Free-form Asker\<close>

text \<open>
  C8. \<open>ask\<close> issues exactly one completion request, with no output schema, no tools and
  no tool choice. When the response has a first choice with a message, the content of that
  message is returned as it is; when the client fails, its failure is returned as it is.
\<close>

theorem ask_single_unconstrained_call:
  "calls (snd (ask env llmProvider question modelName w)) =
     calls w @ [ask_request env question modelName] \<and>
   response_model (ask_request env question modelName) = None \<and>
   tools (ask_request env question modelName) = None \<and>
   tool_choice (ask_request env question modelName) = None \<and>
   (\<forall>response c' ch chs ps msg txt.
      llmProvider modelName (client_state w) (ask_request env question modelName)
        = (Inr response, c') \<and>
      get_prop response ''choices'' = Inr (JArr (ch # chs) ps) \<and>
      get_prop ch ''message'' = Inr msg \<and> get_prop msg ''content'' = Inr txt \<longrightarrow>
      ask env llmProvider question modelName w =
      (Inr txt,
       w\<lparr>client_state := c', calls := calls w @ [ask_request env question modelName]\<rparr>)) \<and>
   (\<forall>e c'.
      llmProvider modelName (client_state w) (ask_request env question modelName)
        = (Inl e, c') \<longrightarrow>
      ask env llmProvider question modelName w =
      (Inl e,
       w\<lparr>client_state := c', calls := calls w @ [ask_request env question modelName]\<rparr>))"
  by (auto simp: ask_def createChatCompletion_def ask_request_def first_message_def ebind_def
      split: prod.splits sum.splits)

theorem ask_single_unconstrained_call_witness:
  "ask example_env (\<lambda>m. scripted_client) ''what is on the page?'' ''gpt-4o''
     (initial_world [Inr (text_response ''a login form'')]) =
   (Inr (JStr ''a login form''),
    \<lparr>client_state = [],
     calls = [ask_request example_env ''what is on the page?'' ''gpt-4o''],
     logs = []\<rparr>) \<and>
   ask example_env (\<lambda>m. scripted_client) ''what is on the page?'' ''gpt-4o''
     (initial_world [Inl (Error ''rate limit'')]) =
   (Inl (Error ''rate limit''),
    \<lparr>client_state = [],
     calls = [ask_request example_env ''what is on the page?'' ''gpt-4o''],
     logs = []\<rparr>)"
proof -
  note a = ask_single_unconstrained_call
      [where llmProvider = "\<lambda>m. scripted_client" and modelName = "''gpt-4o''"
        and w = "initial_world [Inr (text_response ''a login form'') :: error + jsvalue]"
        and env = example_env and question = "''what is on the page?''"]
  note b = ask_single_unconstrained_call
      [where llmProvider = "\<lambda>m. scripted_client" and modelName = "''gpt-4o''"
        and w = "initial_world [Inl (Error ''rate limit'') :: error + jsvalue]"
        and env = example_env and question = "''what is on the page?''"]
  have "ask example_env (\<lambda>m. scripted_client) ''what is on the page?'' ''gpt-4o''
     (initial_world [Inr (text_response ''a login form'')]) =
   (Inr (JStr ''a login form''),
    (initial_world [Inr (text_response ''a login form'')])\<lparr>client_state := [],
     calls := [ask_request example_env ''what is on the page?'' ''gpt-4o'']\<rparr>)"
    using a
    by (simp add: example_simps)
  moreover have "ask example_env (\<lambda>m. scripted_client) ''what is on the page?'' ''gpt-4o''
     (initial_world [Inl (Error ''rate limit'')]) =
   (Inl (Error ''rate limit''),
    (initial_world [Inl (Error ''rate limit'')])\<lparr>client_state := [],
     calls := [ask_request example_env ''what is on the page?'' ''gpt-4o'']\<rparr>)"
    using b
    by (simp add: example_simps)
  ultimately show ?thesis
    by (simp add: initial_world_def)
qed

end
